theory Spec2Isabelle
  imports Complex_Main
begin

section \<open>Numeric values\<close>

text \<open>
  The regressor of \<^verbatim>\<open>homework5/bagging.py\<close> computes with numpy floats. The embedding
  keeps the one feature of floats the code itself tests for, the not-a-number value, and
  idealises the rest: a float is either \<open>NaN\<close> or an exact rational, so there is no
  rounding, no overflow and no infinity. A target, and the prediction for one example, is a
  scalar in the first part of the development and an array of two components in the
  section on two-output targets.
\<close>

datatype fl = NaN | Fin rat

fun fl_add :: "fl \<Rightarrow> fl \<Rightarrow> fl" where
  "fl_add (Fin a) (Fin b) = Fin (a + b)"
| "fl_add NaN y = NaN"
| "fl_add (Fin a) NaN = NaN"

fun fl_sub :: "fl \<Rightarrow> fl \<Rightarrow> fl" where
  "fl_sub (Fin a) (Fin b) = Fin (a - b)"
| "fl_sub NaN y = NaN"
| "fl_sub (Fin a) NaN = NaN"

text \<open>\<^verbatim>\<open>x ** 2\<close>\<close>

fun fl_sq :: "fl \<Rightarrow> fl" where
  "fl_sq (Fin a) = Fin (a * a)"
| "fl_sq NaN = NaN"

text \<open>
  Division of a sum by the number of summands. The only division by zero that
  \<^verbatim>\<open>np.mean\<close> performs is \<open>0 / 0\<close> on an empty input, which is \<open>NaN\<close> (with a
  warning, not an exception).
\<close>

fun fl_div_n :: "fl \<Rightarrow> nat \<Rightarrow> fl" where
  "fl_div_n (Fin a) n = (if n = 0 then NaN else Fin (a / of_nat n))"
| "fl_div_n NaN n = NaN"

fun isnan :: "fl \<Rightarrow> bool" where
  "isnan NaN = True"
| "isnan (Fin a) = False"

datatype error = AssertionError | AttributeError | IndexError | ValueError | TypeError

text \<open>\<^verbatim>\<open>np.mean(xs, axis=0)\<close> on a one-dimensional input: the sum divided by the count.\<close>

definition np_mean :: "fl list \<Rightarrow> fl" where
  "np_mean xs = fl_div_n (foldl fl_add (Fin 0) xs) (length xs)"

text \<open>
  \<^verbatim>\<open>np.mean(rows, axis=0)\<close> on a list of rows: an empty list is a one-dimensional
  empty array, whose mean is the scalar \<open>NaN\<close>; rows of one common length are summed
  column by column and divided by the number of rows; rows of different lengths do not
  form an array.
\<close>

datatype nd = Scalar fl | Array "fl list"

definition np_mean_axis0 :: "fl list list \<Rightarrow> error + nd" where
  "np_mean_axis0 rows =
     (case rows of
        [] \<Rightarrow> Inr (Scalar NaN)
      | r # rs \<Rightarrow>
          if list_all (\<lambda>r'. length r' = length r) rs
          then Inr (Array (map (\<lambda>s. fl_div_n s (length rows))
                            (foldl (map2 fl_add) (replicate (length r) (Fin 0)) rows)))
          else Inl ValueError)"

text \<open>Indexing that raises \<^verbatim>\<open>IndexError\<close> out of range (indices are never negative here).\<close>

definition nth_e :: "'a list \<Rightarrow> nat \<Rightarrow> error + 'a" where
  "nth_e xs i = (if i < length xs then Inr (xs ! i) else Inl IndexError)"

text \<open>numpy's indexing of an array by an array of indices, \<^verbatim>\<open>a[idx]\<close>.\<close>

fun take_idx :: "'a list \<Rightarrow> nat list \<Rightarrow> error + 'a list" where
  "take_idx xs [] = Inr []"
| "take_idx xs (i # rest) =
     (if i < length xs
      then (case take_idx xs rest of Inl e \<Rightarrow> Inl e | Inr r \<Rightarrow> Inr (xs ! i # r))
      else Inl IndexError)"

section \<open>The regressor\<close>

text \<open>
  A fitted base model is represented by its \<^verbatim>\<open>predict\<close> method, from a batch of
  feature vectors to a batch of predictions. The attributes that \<^verbatim>\<open>__init__\<close> does
  not set are optional: reading one before it is assigned raises \<^verbatim>\<open>AttributeError\<close>.

  The class does not fix what a target is. The record leaves open the type \<open>'v\<close> of a
  target and of one prediction, and the type \<open>'a\<close> of an averaged out-of-bag prediction;
  sampling, \<open>fit\<close> and the gathering of the out-of-bag predictions never look inside a
  value and are embedded once, for every \<open>'v\<close>. With scalar targets both types are \<open>fl\<close>:
  that instance is \<open>'x regressor\<close>.
\<close>

record ('x, 'v, 'a) bagging_regressor =
  num_bags :: int
  oob :: bool
  indices_list :: "nat list list option"
  data :: "'x list option"
  target :: "'v list option"
  models_list :: "('x list \<Rightarrow> 'v list) list option"
  list_of_predictions_lists :: "'v list list option"
  oob_predictions :: "'a option list option"

type_synonym 'x model = "'x list \<Rightarrow> fl list"

type_synonym 'x regressor = "('x, fl, fl) bagging_regressor"

definition init :: "int \<Rightarrow> bool \<Rightarrow> ('x, 'v, 'a) bagging_regressor" where
  "init nb ob =
     \<lparr>num_bags = nb, oob = ob, indices_list = None, data = None, target = None,
      models_list = None, list_of_predictions_lists = None, oob_predictions = None\<rparr>"

subsection \<open>Sampling the bags\<close>

text \<open>
  \<^verbatim>\<open>np.random.choice(a, size=n, replace=True)\<close> is a parameter \<open>choice\<close> that maps the
  state of the random source, \<open>a\<close> and \<open>n\<close> to the drawn indices and the next state.
  \<open>choice_contract\<close> is what numpy promises of it.
\<close>

type_synonym 'g choice = "'g \<Rightarrow> nat \<Rightarrow> nat \<Rightarrow> nat list \<times> 'g"

definition choice_contract :: "'g choice \<Rightarrow> bool" where
  "choice_contract choice =
     (\<forall>g a n. 0 < a \<longrightarrow> length (fst (choice g a n)) = n \<and> (\<forall>j \<in> set (fst (choice g a n)). j < a))"

fun generate_splits_loop :: "'g choice \<Rightarrow> nat \<Rightarrow> nat \<Rightarrow> nat list list \<Rightarrow> 'g \<Rightarrow> nat list list \<times> 'g" where
  "generate_splits_loop choice data_length 0 acc g = (acc, g)"
| "generate_splits_loop choice data_length (Suc k) acc g =
     (case choice g data_length data_length of
        (bag_indices, g') \<Rightarrow> generate_splits_loop choice data_length k (acc @ [bag_indices]) g')"

definition generate_splits :: "'g choice \<Rightarrow> ('x, 'v, 'a) bagging_regressor \<Rightarrow> 'x list \<Rightarrow> 'g \<Rightarrow>
    ('x, 'v, 'a) bagging_regressor \<times> 'g" where
  "generate_splits choice st X g =
     (case generate_splits_loop choice (length X) (nat (num_bags st)) [] g of
        (bags, g') \<Rightarrow> (st\<lparr>indices_list := Some bags\<rparr>, g'))"

subsection \<open>fit\<close>

text \<open>The two assertions of \<^verbatim>\<open>fit\<close>, as tests on the list of bags.\<close>

definition bags_same_length :: "nat list list \<Rightarrow> bool" where
  "bags_same_length bags = (card (set (map length bags)) = 1)"

definition bags_data_length :: "nat list list \<Rightarrow> nat \<Rightarrow> error + bool" where
  "bags_data_length bags n = (case map length bags of [] \<Rightarrow> Inl IndexError | l # ls \<Rightarrow> Inr (l = n))"

text \<open>
  \<open>model_constructor data_bag target_bag\<close> stands for
  \<^verbatim>\<open>model_constructor().fit(data_bag, target_bag)\<close>.
\<close>

fun fit_loop :: "('x list \<Rightarrow> 'v list \<Rightarrow> 'x list \<Rightarrow> 'v list) \<Rightarrow> 'x list \<Rightarrow> 'v list \<Rightarrow> nat list list \<Rightarrow>
    nat list \<Rightarrow> ('x list \<Rightarrow> 'v list) list \<Rightarrow> error + ('x list \<Rightarrow> 'v list) list" where
  "fit_loop model_constructor X y bags [] acc = Inr acc"
| "fit_loop model_constructor X y bags (bag # rest) acc =
     (case nth_e bags bag of
        Inl e \<Rightarrow> Inl e
      | Inr idx \<Rightarrow>
          (case take_idx X idx of
             Inl e \<Rightarrow> Inl e
           | Inr data_bag \<Rightarrow>
               (case take_idx y idx of
                  Inl e \<Rightarrow> Inl e
                | Inr target_bag \<Rightarrow>
                    fit_loop model_constructor X y bags rest
                      (acc @ [model_constructor data_bag target_bag]))))"

definition fit :: "('x list \<Rightarrow> 'v list \<Rightarrow> 'x list \<Rightarrow> 'v list) \<Rightarrow> 'g choice \<Rightarrow>
    ('x, 'v, 'a) bagging_regressor \<Rightarrow> 'x list \<Rightarrow> 'v list \<Rightarrow> 'g \<Rightarrow>
    error + (('x, 'v, 'a) bagging_regressor \<times> 'g)" where
  "fit model_constructor choice st X y g =
     (case generate_splits choice (st\<lparr>data := Some X, target := Some y\<rparr>) X g of
        (st1, g') \<Rightarrow>
          (case indices_list st1 of
             None \<Rightarrow> Inl AttributeError
           | Some bags \<Rightarrow>
               if \<not> bags_same_length bags then Inl AssertionError
               else
                 (case bags_data_length bags (length X) of
                    Inl e \<Rightarrow> Inl e
                  | Inr ok \<Rightarrow>
                      if \<not> ok then Inl AssertionError
                      else
                        (case fit_loop model_constructor X y bags [0..<nat (num_bags st1)] [] of
                           Inl e \<Rightarrow> Inl e
                         | Inr ms \<Rightarrow>
                             (let st2 = st1\<lparr>models_list := Some ms\<rparr>
                              in Inr (if oob st2 then st2\<lparr>data := Some X, target := Some y\<rparr> else st2,
                                      g'))))))"

subsection \<open>predict\<close>

definition predict :: "'x regressor \<Rightarrow> 'x list \<Rightarrow> error + nd" where
  "predict st Xq =
     (case models_list st of
        None \<Rightarrow> Inl AttributeError
      | Some ms \<Rightarrow> np_mean_axis0 (map (\<lambda>model. model Xq) ms))"

subsection \<open>Out-of-bag predictions\<close>

fun oob_bag_loop :: "('x, 'v, 'a) bagging_regressor \<Rightarrow> 'x \<Rightarrow> nat \<Rightarrow> nat list \<Rightarrow> 'v list \<Rightarrow> error + 'v list" where
  "oob_bag_loop st x i [] acc = Inr acc"
| "oob_bag_loop st x i (bag # rest) acc =
     (case indices_list st of
        None \<Rightarrow> Inl AttributeError
      | Some bags \<Rightarrow>
          (case nth_e bags bag of
             Inl e \<Rightarrow> Inl e
           | Inr idx \<Rightarrow>
               if i \<notin> set idx
               then
                 (case models_list st of
                    None \<Rightarrow> Inl AttributeError
                  | Some ms \<Rightarrow>
                      (case nth_e ms bag of
                         Inl e \<Rightarrow> Inl e
                       | Inr model \<Rightarrow>
                           (case model [x] of
                              [] \<Rightarrow> Inl IndexError
                            | prediction # others \<Rightarrow> oob_bag_loop st x i rest (acc @ [prediction]))))
               else oob_bag_loop st x i rest acc))"

fun oob_example_loop :: "('x, 'v, 'a) bagging_regressor \<Rightarrow> 'x list \<Rightarrow> nat list \<Rightarrow> 'v list list \<Rightarrow>
    error + 'v list list" where
  "oob_example_loop st X [] acc = Inr acc"
| "oob_example_loop st X (i # rest) acc =
     (case nth_e X i of
        Inl e \<Rightarrow> Inl e
      | Inr x \<Rightarrow>
          (case oob_bag_loop st x i [0..<nat (num_bags st)] [] of
             Inl e \<Rightarrow> Inl e
           | Inr predictions \<Rightarrow> oob_example_loop st X rest (acc @ [predictions])))"

definition get_oob_predictions_from_every_model ::
    "('x, 'v, 'a) bagging_regressor \<Rightarrow> error + ('x, 'v, 'a) bagging_regressor" where
  "get_oob_predictions_from_every_model st =
     (case data st of
        None \<Rightarrow> Inl AttributeError
      | Some X \<Rightarrow>
          (case oob_example_loop st X [0..<length X] [] of
             Inl e \<Rightarrow> Inl e
           | Inr L \<Rightarrow> Inr (st\<lparr>list_of_predictions_lists := Some L\<rparr>)))"

text \<open>The body of the loop of \<^verbatim>\<open>_get_averaged_oob_predictions\<close>, for one example.\<close>

definition average_one :: "int \<Rightarrow> fl list \<Rightarrow> fl option" where
  "average_one nb predictions =
     (if int (length predictions) < nb then Some (np_mean predictions) else None)"

definition get_averaged_oob_predictions :: "'x regressor \<Rightarrow> error + 'x regressor" where
  "get_averaged_oob_predictions st =
     (case get_oob_predictions_from_every_model st of
        Inl e \<Rightarrow> Inl e
      | Inr st1 \<Rightarrow>
          (case list_of_predictions_lists st1 of
             None \<Rightarrow> Inl AttributeError
           | Some L \<Rightarrow> Inr (st1\<lparr>oob_predictions := Some (map (average_one (num_bags st1)) L)\<rparr>)))"

subsection \<open>OOB\_score\<close>

fun score_loop :: "'x regressor \<Rightarrow> nat list \<Rightarrow> fl list \<Rightarrow> error + fl list" where
  "score_loop st [] acc = Inr acc"
| "score_loop st (i # rest) acc =
     (case oob_predictions st of
        None \<Rightarrow> Inl AttributeError
      | Some P \<Rightarrow>
          (case nth_e P i of
             Inl e \<Rightarrow> Inl e
           | Inr None \<Rightarrow> score_loop st rest acc
           | Inr (Some prediction) \<Rightarrow>
               (case target st of
                  None \<Rightarrow> Inl AttributeError
                | Some T \<Rightarrow>
                    (case nth_e T i of
                       Inl e \<Rightarrow> Inl e
                     | Inr t \<Rightarrow>
                         if \<not> isnan (fl_sq (fl_sub prediction t))
                         then score_loop st rest (acc @ [fl_sq (fl_sub prediction t)])
                         else score_loop st rest acc))))"

definition OOB_score :: "'x regressor \<Rightarrow> error + (fl \<times> 'x regressor)" where
  "OOB_score st =
     (case get_averaged_oob_predictions st of
        Inl e \<Rightarrow> Inl e
      | Inr st1 \<Rightarrow>
          (case data st1 of
             None \<Rightarrow> Inl AttributeError
           | Some X \<Rightarrow>
               (case score_loop st1 [0..<length X] [] of
                  Inl e \<Rightarrow> Inl e
                | Inr squared_errors \<Rightarrow> Inr (np_mean squared_errors, st1))))"

section \<open>Two-output targets\<close>

text \<open>
  A target may itself be an array. With two outputs a target and a prediction are float64
  arrays of two components, here pairs. Sampling, \<open>fit\<close> and the gathering step are the
  functions above; the averaging and the scoring meet two facts of numpy that scalars hide.

  \<^item> Line 68 stores the lists with \<^verbatim>\<open>np.array(..., dtype=object)\<close>. When all lists have one
    common length \<open>k\<close> the result is a single object array of shape \<open>(N, k, 2)\<close>, or
    \<open>(N, 0)\<close>, and the loop of line 78 walks over its rows, which are object arrays; when
    the lengths differ it is a one-dimensional array of \<open>N\<close> Python lists.
  \<^item> \<^verbatim>\<open>np.mean\<close> of a non-empty object array is again an object array, and so is its
    difference with a float64 array and the square of that; \<^verbatim>\<open>np.isnan\<close> is not defined
    on object arrays and raises \<^verbatim>\<open>TypeError\<close>.

  \<open>Arr2 obj (a, b)\<close> is the array \<open>[a, b]\<close>, of dtype object when \<open>obj\<close> holds and float64
  otherwise; \<open>Sca s\<close> is a float64 scalar.
\<close>

datatype nd2 = Arr2 bool "fl \<times> fl" | Sca fl

type_synonym 'x regressor2 = "('x, fl \<times> fl, nd2) bagging_regressor"

text \<open>Whether line 68 yields one rectangular object array.\<close>

definition rectangular :: "'v list list \<Rightarrow> bool" where
  "rectangular L = (case L of [] \<Rightarrow> False | l # ls \<Rightarrow> list_all (\<lambda>l'. length l' = length l) ls)"

definition pair_mean :: "(fl \<times> fl) list \<Rightarrow> fl \<times> fl" where
  "pair_mean ps = (np_mean (map fst ps), np_mean (map snd ps))"

text \<open>
  \<^verbatim>\<open>np.mean(ps, axis=0)\<close> on arrays of two components; \<open>obj\<close> says whether \<open>ps\<close> is an
  object array. The mean of nothing is the scalar \<open>NaN\<close>.
\<close>

definition np_mean2 :: "bool \<Rightarrow> (fl \<times> fl) list \<Rightarrow> nd2" where
  "np_mean2 obj ps = (if ps = [] then Sca NaN else Arr2 obj (pair_mean ps))"

definition average_one2 :: "bool \<Rightarrow> int \<Rightarrow> (fl \<times> fl) list \<Rightarrow> nd2 option" where
  "average_one2 obj nb predictions =
     (if int (length predictions) < nb then Some (np_mean2 obj predictions) else None)"

definition get_averaged_oob_predictions2 :: "'x regressor2 \<Rightarrow> error + 'x regressor2" where
  "get_averaged_oob_predictions2 st =
     (case get_oob_predictions_from_every_model st of
        Inl e \<Rightarrow> Inl e
      | Inr st1 \<Rightarrow>
          (case list_of_predictions_lists st1 of
             None \<Rightarrow> Inl AttributeError
           | Some L \<Rightarrow>
               Inr (st1\<lparr>oob_predictions :=
                          Some (map (average_one2 (rectangular L) (num_bags st1)) L)\<rparr>)))"

text \<open>
  \<^verbatim>\<open>(prediction - target[i]) ** 2\<close>, with the dtype of the result; a scalar prediction is
  broadcast over the two components.
\<close>

fun squared_error2 :: "nd2 \<Rightarrow> fl \<times> fl \<Rightarrow> bool \<times> (fl \<times> fl)" where
  "squared_error2 (Arr2 obj (p, q)) (t, u) = (obj, (fl_sq (fl_sub p t), fl_sq (fl_sub q u)))"
| "squared_error2 (Sca s) (t, u) = (False, (fl_sq (fl_sub s t), fl_sq (fl_sub s u)))"

text \<open>\<^verbatim>\<open>np.isnan(squared_error).any()\<close>\<close>

fun isnan_any :: "bool \<times> (fl \<times> fl) \<Rightarrow> error + bool" where
  "isnan_any (obj, (a, b)) = (if obj then Inl TypeError else Inr (isnan a \<or> isnan b))"

fun score_loop2 :: "'x regressor2 \<Rightarrow> nat list \<Rightarrow> (fl \<times> fl) list \<Rightarrow> error + (fl \<times> fl) list" where
  "score_loop2 st [] acc = Inr acc"
| "score_loop2 st (i # rest) acc =
     (case oob_predictions st of
        None \<Rightarrow> Inl AttributeError
      | Some P \<Rightarrow>
          (case nth_e P i of
             Inl e \<Rightarrow> Inl e
           | Inr None \<Rightarrow> score_loop2 st rest acc
           | Inr (Some prediction) \<Rightarrow>
               (case target st of
                  None \<Rightarrow> Inl AttributeError
                | Some T \<Rightarrow>
                    (case nth_e T i of
                       Inl e \<Rightarrow> Inl e
                     | Inr t \<Rightarrow>
                         (case isnan_any (squared_error2 prediction t) of
                            Inl e \<Rightarrow> Inl e
                          | Inr has_nan \<Rightarrow>
                              if \<not> has_nan
                              then score_loop2 st rest (acc @ [snd (squared_error2 prediction t)])
                              else score_loop2 st rest acc)))))"

definition OOB_score2 :: "'x regressor2 \<Rightarrow> error + (nd2 \<times> 'x regressor2)" where
  "OOB_score2 st =
     (case get_averaged_oob_predictions2 st of
        Inl e \<Rightarrow> Inl e
      | Inr st1 \<Rightarrow>
          (case data st1 of
             None \<Rightarrow> Inl AttributeError
           | Some X \<Rightarrow>
               (case score_loop2 st1 [0..<length X] [] of
                  Inl e \<Rightarrow> Inl e
                | Inr squared_errors \<Rightarrow> Inr (np_mean2 False squared_errors, st1))))"

section \<open>Specification vocabulary\<close>

text \<open>
  What a successful \<^verbatim>\<open>fit\<close> leaves behind: the data, the targets, \<open>num_bags\<close> bags and
  as many models, every bag as long as the data and indexing into data and targets.
\<close>

definition fitted :: "('x, 'v, 'a) bagging_regressor \<Rightarrow> 'x list \<Rightarrow> 'v list \<Rightarrow> nat list list \<Rightarrow>
    ('x list \<Rightarrow> 'v list) list \<Rightarrow> bool" where
  "fitted st X y bags ms =
     (data st = Some X \<and> target st = Some y \<and> indices_list st = Some bags \<and>
      models_list st = Some ms \<and> 1 \<le> num_bags st \<and>
      length bags = nat (num_bags st) \<and> length ms = nat (num_bags st) \<and>
      list_all (\<lambda>b. length b = length X \<and> list_all (\<lambda>i. i < length X \<and> i < length y) b) bags)"

text \<open>
  The predictions for example \<open>i\<close> of the models whose bag does not contain \<open>i\<close>, in the
  order of the bags; \<open>hd (model [x])\<close> is \<^verbatim>\<open>model.predict([x])[0]\<close> for a model that
  answers a one-element batch.
\<close>

definition oob_list :: "'x list \<Rightarrow> nat list list \<Rightarrow> ('x list \<Rightarrow> 'v list) list \<Rightarrow> nat \<Rightarrow> 'v list" where
  "oob_list X bags ms i =
     map (\<lambda>b. hd ((ms ! b) [X ! i])) (filter (\<lambda>b. i \<notin> set (bags ! b)) [0..<length bags])"

text \<open>
  The squared error of example \<open>i\<close>, and whether the example enters the average of
  \<^verbatim>\<open>OOB_score\<close>: its averaged prediction is present and its squared error is a number.
\<close>

definition squared_error :: "fl option list \<Rightarrow> fl list \<Rightarrow> nat \<Rightarrow> fl" where
  "squared_error P T i = (case P ! i of None \<Rightarrow> NaN | Some p \<Rightarrow> fl_sq (fl_sub p (T ! i)))"

definition scored :: "fl option list \<Rightarrow> fl list \<Rightarrow> nat \<Rightarrow> bool" where
  "scored P T i = (case P ! i of None \<Rightarrow> False | Some p \<Rightarrow> \<not> isnan (fl_sq (fl_sub p (T ! i))))"

section \<open>A worked ensemble\<close>

text \<open>
  A stub base model that predicts the mean of its training targets for every input, a
  random source that replays a script of bags, and one that cycles through the indices.
  Four examples with targets 1, 2, 3, 4 and two bags: example 0 is in both bags, example
  1 only in the first, example 2 only in the second, example 3 in neither.
\<close>

definition mean_stub :: "'x list \<Rightarrow> fl list \<Rightarrow> 'x model" where
  "mean_stub data_bag target_bag = (\<lambda>xs. replicate (length xs) (np_mean target_bag))"

definition choice_script :: "nat list list choice" where
  "choice_script g a n = (case g of [] \<Rightarrow> (replicate n 0, []) | b # bs \<Rightarrow> (b, bs))"

definition choice_cycle :: "nat choice" where
  "choice_cycle g a n = (map (\<lambda>k. (g + k * k) mod a) [0..<n], g + n + 1)"

definition ex_X :: "nat list" where
  "ex_X = [10, 11, 12, 13]"

definition ex_y :: "fl list" where
  "ex_y = [Fin 1, Fin 2, Fin 3, Fin 4]"

definition ex_bags :: "nat list list" where
  "ex_bags = [[0, 0, 1, 1], [0, 2, 2, 0]]"

definition ex_models :: "nat model list" where
  "ex_models = [mean_stub [10, 10, 11, 11] [Fin 1, Fin 1, Fin 2, Fin 2],
                mean_stub [10, 12, 12, 10] [Fin 1, Fin 3, Fin 3, Fin 1]]"

definition ex_fitted :: "nat regressor" where
  "ex_fitted =
     \<lparr>num_bags = 2, oob = True, indices_list = Some ex_bags, data = Some ex_X, target = Some ex_y,
      models_list = Some ex_models, list_of_predictions_lists = None, oob_predictions = None\<rparr>"

definition ex_lists :: "fl list list" where
  "ex_lists = [[], [Fin 2], [Fin (3 / 2)], [Fin (3 / 2), Fin 2]]"

definition ex_averages :: "fl option list" where
  "ex_averages = [Some NaN, Some (Fin 2), Some (Fin (3 / 2)), None]"

definition ex_averaged :: "nat regressor" where
  "ex_averaged = ex_fitted\<lparr>list_of_predictions_lists := Some ex_lists, oob_predictions := Some ex_averages\<rparr>"

text \<open>The same data with \<open>num_bags = 1\<close>: the single bag holds the examples 0 and 1.\<close>

definition ex1_bags :: "nat list list" where
  "ex1_bags = [[0, 0, 1, 1]]"

definition ex1_models :: "nat model list" where
  "ex1_models = [mean_stub [10, 10, 11, 11] [Fin 1, Fin 1, Fin 2, Fin 2]]"

definition ex1_fitted :: "nat regressor" where
  "ex1_fitted =
     \<lparr>num_bags = 1, oob = True, indices_list = Some ex1_bags, data = Some ex_X, target = Some ex_y,
      models_list = Some ex1_models, list_of_predictions_lists = None, oob_predictions = None\<rparr>"

definition ex1_lists :: "fl list list" where
  "ex1_lists = [[], [], [Fin (3 / 2)], [Fin (3 / 2)]]"

definition ex1_averages :: "fl option list" where
  "ex1_averages = [Some NaN, Some NaN, None, None]"

definition ex1_averaged :: "nat regressor" where
  "ex1_averaged = ex1_fitted\<lparr>list_of_predictions_lists := Some ex1_lists, oob_predictions := Some ex1_averages\<rparr>"

text \<open>
  Two-output targets. Two examples with targets \<open>[1, 2]\<close> and \<open>[3, 4]\<close>, and the bags
  \<open>[0, 0]\<close> and \<open>[1, 1]\<close>: each example is out of exactly one bag, so both lists have one
  entry. Then the four examples with the bags of the first ensemble, whose lists have the
  lengths 0, 1, 1 and 2.
\<close>

definition mean_stub2 :: "'x list \<Rightarrow> (fl \<times> fl) list \<Rightarrow> 'x list \<Rightarrow> (fl \<times> fl) list" where
  "mean_stub2 data_bag target_bag = (\<lambda>xs. replicate (length xs) (pair_mean target_bag))"

definition ex2_X :: "nat list" where
  "ex2_X = [10, 11]"

definition ex2_y :: "(fl \<times> fl) list" where
  "ex2_y = [(Fin 1, Fin 2), (Fin 3, Fin 4)]"

definition ex2_bags :: "nat list list" where
  "ex2_bags = [[0, 0], [1, 1]]"

definition ex2_models :: "(nat list \<Rightarrow> (fl \<times> fl) list) list" where
  "ex2_models = [mean_stub2 [10, 10] [(Fin 1, Fin 2), (Fin 1, Fin 2)],
                 mean_stub2 [11, 11] [(Fin 3, Fin 4), (Fin 3, Fin 4)]]"

definition ex2_fitted :: "nat regressor2" where
  "ex2_fitted =
     \<lparr>num_bags = 2, oob = True, indices_list = Some ex2_bags, data = Some ex2_X, target = Some ex2_y,
      models_list = Some ex2_models, list_of_predictions_lists = None, oob_predictions = None\<rparr>"

definition ex2_lists :: "(fl \<times> fl) list list" where
  "ex2_lists = [[(Fin 3, Fin 4)], [(Fin 1, Fin 2)]]"

definition ex2_averaged :: "nat regressor2" where
  "ex2_averaged =
     ex2_fitted\<lparr>list_of_predictions_lists := Some ex2_lists,
                oob_predictions := Some [Some (Arr2 True (Fin 3, Fin 4)), Some (Arr2 True (Fin 1, Fin 2))]\<rparr>"

definition ex3_y :: "(fl \<times> fl) list" where
  "ex3_y = [(Fin 1, Fin 0), (Fin 2, Fin 0), (Fin 3, Fin 0), (Fin 4, Fin 0)]"

definition ex3_models :: "(nat list \<Rightarrow> (fl \<times> fl) list) list" where
  "ex3_models = [mean_stub2 [10, 10, 11, 11] [(Fin 1, Fin 0), (Fin 1, Fin 0), (Fin 2, Fin 0), (Fin 2, Fin 0)],
                 mean_stub2 [10, 12, 12, 10] [(Fin 1, Fin 0), (Fin 3, Fin 0), (Fin 3, Fin 0), (Fin 1, Fin 0)]]"

definition ex3_fitted :: "nat regressor2" where
  "ex3_fitted =
     \<lparr>num_bags = 2, oob = True, indices_list = Some ex_bags, data = Some ex_X, target = Some ex3_y,
      models_list = Some ex3_models, list_of_predictions_lists = None, oob_predictions = None\<rparr>"

definition ex3_averaged :: "nat regressor2" where
  "ex3_averaged =
     ex3_fitted\<lparr>list_of_predictions_lists :=
                  Some [[], [(Fin 2, Fin 0)], [(Fin (3 / 2), Fin 0)], [(Fin (3 / 2), Fin 0), (Fin 2, Fin 0)]],
                oob_predictions :=
                  Some [Some (Sca NaN), Some (Arr2 False (Fin 2, Fin 0)),
                        Some (Arr2 False (Fin (3 / 2), Fin 0)), None]\<rparr>"

section \<open>The sampler and the loop of fit\<close>

lemma generate_splits_loop_length:
  "length (fst (generate_splits_loop choice n k acc g)) = length acc + k"
  by (induction k arbitrary: acc g) (auto split: prod.splits)

lemma generate_splits_loop_bags:
  assumes "choice_contract choice" "0 < n"
    and "\<forall>b \<in> set acc. length b = n \<and> (\<forall>j \<in> set b. j < n)"
  shows "\<forall>b \<in> set (fst (generate_splits_loop choice n k acc g)). length b = n \<and> (\<forall>j \<in> set b. j < n)"
  using assms(3)
proof (induction k arbitrary: acc g)
  case 0
  then show ?case by simp
next
  case (Suc k)
  obtain bag g' where c: "choice g n n = (bag, g')" by (cases "choice g n n")
  from assms(1,2) have "length (fst (choice g n n)) = n \<and> (\<forall>j \<in> set (fst (choice g n n)). j < n)"
    unfolding choice_contract_def by blast
  with c have "length bag = n \<and> (\<forall>j \<in> set bag. j < n)" by simp
  with Suc.prems have "\<forall>b \<in> set (acc @ [bag]). length b = n \<and> (\<forall>j \<in> set b. j < n)" by auto
  from Suc.IH[OF this] show ?case using c by simp
qed

lemma take_idx_Inr:
  "take_idx xs idx = Inr r \<Longrightarrow> (\<forall>i \<in> set idx. i < length xs) \<and> r = map (\<lambda>i. xs ! i) idx"
  by (induction idx arbitrary: r) (auto split: if_splits sum.splits)

lemma take_idx_ok:
  "\<forall>i \<in> set idx. i < length xs \<Longrightarrow> take_idx xs idx = Inr (map (\<lambda>i. xs ! i) idx)"
  by (induction idx) auto

lemma fit_loop_Inr:
  "fit_loop mc X y bags bs acc = Inr ms \<Longrightarrow>
     length ms = length acc + length bs \<and>
     (\<forall>b \<in> set bs. b < length bags \<and> (\<forall>i \<in> set (bags ! b). i < length X \<and> i < length y))"
proof (induction bs arbitrary: acc)
  case Nil
  then show ?case by simp
next
  case (Cons b bs)
  from Cons.prems obtain idx db tb where
    1: "nth_e bags b = Inr idx" and 2: "take_idx X idx = Inr db" and 3: "take_idx y idx = Inr tb"
    and 4: "fit_loop mc X y bags bs (acc @ [mc db tb]) = Inr ms"
    by (auto split: sum.splits)
  from 1 have b: "b < length bags" "idx = bags ! b" by (auto simp: nth_e_def split: if_splits)
  from Cons.IH[OF 4] take_idx_Inr[OF 2] take_idx_Inr[OF 3] b show ?case by auto
qed

lemma take_idx_Inl: "take_idx xs idx = Inl e \<Longrightarrow> e = IndexError"
  by (induction idx) (auto split: if_splits sum.splits)

lemma fit_loop_Inl: "fit_loop mc X y bags bs acc = Inl e \<Longrightarrow> e = IndexError"
  by (induction bs arbitrary: acc)
     (auto simp: nth_e_def split: if_splits sum.splits dest: take_idx_Inl)

lemma fit_loop_ok:
  "\<forall>b \<in> set bs. b < length bags \<and> (\<forall>i \<in> set (bags ! b). i < length X \<and> i < length y) \<Longrightarrow>
   \<exists>ms. fit_loop mc X y bags bs acc = Inr ms"
proof (induction bs arbitrary: acc)
  case Nil
  then show ?case by simp
next
  case (Cons b bs)
  then have "take_idx X (bags ! b) = Inr (map (\<lambda>i. X ! i) (bags ! b))"
    "take_idx y (bags ! b) = Inr (map (\<lambda>i. y ! i) (bags ! b))" "b < length bags"
    by (auto intro!: take_idx_ok)
  with Cons show ?case by (simp add: nth_e_def)
qed

lemma bags_asserts:
  assumes "bags_same_length bags" "bags_data_length bags n = Inr True"
  shows "bags \<noteq> [] \<and> (\<forall>b \<in> set bags. length b = n)"
proof -
  from assms(1) obtain l where l: "set (map length bags) = {l}"
    unfolding bags_same_length_def by (auto simp: card_1_singleton_iff)
  then have ne: "bags \<noteq> []" by auto
  then obtain b bs where bags: "bags = b # bs" by (cases bags) auto
  with assms(2) have "length b = n" by (simp add: bags_data_length_def)
  moreover from l bags have "length b = l" by auto
  ultimately have "l = n" by simp
  with l have "\<forall>b \<in> set bags. length b = n" by auto
  with ne show ?thesis by simp
qed

lemma fit_fitted:
  assumes "fit mc choice st X y g = Inr (st', g')"
  shows "\<exists>bags ms. fitted st' X y bags ms \<and> num_bags st' = num_bags st \<and> oob st' = oob st
           \<and> (bags, g') = generate_splits_loop choice (length X) (nat (num_bags st)) [] g"
proof -
  obtain bags g1 where gl: "generate_splits_loop choice (length X) (nat (num_bags st)) [] g = (bags, g1)"
    by (cases "generate_splits_loop choice (length X) (nat (num_bags st)) [] g")
  from assms gl obtain ms where
    same: "bags_same_length bags" and dl: "bags_data_length bags (length X) = Inr True"
    and fl: "fit_loop mc X y bags [0..<nat (num_bags st)] [] = Inr ms"
    and st': "st' = (if oob st then st\<lparr>data := Some X, target := Some y, indices_list := Some bags,
                  models_list := Some ms, data := Some X, target := Some y\<rparr>
                else st\<lparr>data := Some X, target := Some y, indices_list := Some bags, models_list := Some ms\<rparr>)"
    and g': "g' = g1"
    by (auto simp: fit_def generate_splits_def Let_def split: sum.splits if_splits)
  from bags_asserts[OF same dl] have ne: "bags \<noteq> []" and len: "\<forall>b \<in> set bags. length b = length X"
    by auto
  have lb: "length bags = nat (num_bags st)"
    using generate_splits_loop_length[of choice "length X" "nat (num_bags st)" "[]" g] gl by simp
  with ne have nb: "1 \<le> num_bags st" by (cases "num_bags st \<le> 0") auto
  from fit_loop_Inr[OF fl] have lm: "length ms = nat (num_bags st)"
    and idx0: "\<forall>b<nat (num_bags st). \<forall>i \<in> set (bags ! b). i < length X \<and> i < length y"
    by auto
  have idx: "\<forall>b \<in> set bags. \<forall>i \<in> set b. i < length X \<and> i < length y"
  proof
    fix b assume "b \<in> set bags"
    then obtain k where "k < length bags" "b = bags ! k" by (auto simp: in_set_conv_nth)
    with idx0 lb show "\<forall>i \<in> set b. i < length X \<and> i < length y" by simp
  qed
  have "fitted st' X y bags ms"
    using st' nb lb lm len idx by (auto simp: fitted_def list_all_iff)
  moreover have "num_bags st' = num_bags st" "oob st' = oob st" using st' by auto
  ultimately show ?thesis using gl g' by auto
qed

lemma fit_fitted_with:
  assumes "fit mc choice st0 X y g = Inr (st, g')" "models_list st = Some ms" "indices_list st = Some bags"
  shows "fitted st X y bags ms"
  using fit_fitted[OF assms(1)] assms(2,3) by (auto simp: fitted_def)

section \<open>Means along the ensemble axis\<close>

lemma foldl_map2_length:
  "\<forall>r \<in> set rows. length r = length z \<Longrightarrow> length (foldl (map2 fl_add) z rows) = length z"
  by (induction rows arbitrary: z) auto

lemma foldl_map2_nth:
  "\<forall>r \<in> set rows. length r = length z \<Longrightarrow> i < length z \<Longrightarrow>
   foldl (map2 fl_add) z rows ! i = foldl fl_add (z ! i) (map (\<lambda>r. r ! i) rows)"
  by (induction rows arbitrary: z) auto

lemma np_mean_axis0_columns:
  assumes "rows \<noteq> []" "\<forall>r \<in> set rows. length r = n"
  shows "\<exists>ys. np_mean_axis0 rows = Inr (Array ys) \<and> length ys = n \<and>
           (\<forall>i<n. ys ! i = np_mean (map (\<lambda>r. r ! i) rows))"
proof -
  from assms obtain r rs where rows: "rows = r # rs" by (cases rows) auto
  with assms(2) have lr: "length r = n" and all: "list_all (\<lambda>r'. length r' = length r) rs"
    by (auto simp: list_all_iff)
  let ?z = "replicate n (Fin 0)"
  let ?s = "foldl (map2 fl_add) ?z rows"
  have a: "\<forall>r \<in> set rows. length r = length ?z" using assms(2) by simp
  have ls: "length ?s = n" using foldl_map2_length[OF a] by simp
  have nth: "?s ! i = foldl fl_add (Fin 0) (map (\<lambda>r. r ! i) rows)" if "i < n" for i
    using foldl_map2_nth[OF a, of i] that by simp
  have eq: "np_mean_axis0 rows = Inr (Array (map (\<lambda>s. fl_div_n s (length rows)) ?s))"
    using rows all lr by (simp add: np_mean_axis0_def)
  show ?thesis
    using eq ls nth by (simp add: np_mean_def)
qed

section \<open>The out-of-bag loops in closed form\<close>

lemma oob_bag_loop_char:
  assumes "indices_list st = Some bags" "models_list st = Some ms"
    and "\<forall>b \<in> set bs. b < length bags \<and> b < length ms \<and> (ms ! b) [x] \<noteq> []"
  shows "oob_bag_loop st x i bs acc =
           Inr (acc @ map (\<lambda>b. hd ((ms ! b) [x])) (filter (\<lambda>b. i \<notin> set (bags ! b)) bs))"
  using assms(3)
proof (induction bs arbitrary: acc)
  case Nil
  then show ?case by simp
next
  case (Cons b bs)
  then have b: "b < length bags" "b < length ms" "(ms ! b) [x] \<noteq> []" by auto
  then obtain p ps where p: "(ms ! b) [x] = p # ps" by (cases "(ms ! b) [x]") auto
  from Cons have IH: "\<And>acc. oob_bag_loop st x i bs acc =
           Inr (acc @ map (\<lambda>b. hd ((ms ! b) [x])) (filter (\<lambda>b. i \<notin> set (bags ! b)) bs))" by simp
  show ?case using assms(1,2) b p IH by (simp add: nth_e_def)
qed

lemma oob_example_loop_char:
  assumes "indices_list st = Some bags" "models_list st = Some ms"
    and "length bags = nat (num_bags st)" "length ms = nat (num_bags st)"
    and "\<forall>m \<in> set ms. \<forall>x. m [x] \<noteq> []"
    and "\<forall>i \<in> set is. i < length X"
  shows "oob_example_loop st X is acc = Inr (acc @ map (oob_list X bags ms) is)"
  using assms(6)
proof (induction "is" arbitrary: acc)
  case Nil
  then show ?case by simp
next
  case (Cons i rest)
  have "\<forall>b \<in> set [0..<nat (num_bags st)]. b < length bags \<and> b < length ms \<and> (ms ! b) [X ! i] \<noteq> []"
    using assms(3,4,5) by simp
  from oob_bag_loop_char[OF assms(1,2) this, of i "[]"]
  have "oob_bag_loop st (X ! i) i [0..<nat (num_bags st)] [] = Inr (oob_list X bags ms i)"
    using assms(3) by (simp add: oob_list_def)
  with Cons show ?case by (simp add: nth_e_def)
qed

lemma get_oob_fitted:
  assumes "fitted st X y bags ms" "\<forall>m \<in> set ms. \<forall>x. m [x] \<noteq> []"
  shows "get_oob_predictions_from_every_model st =
           Inr (st\<lparr>list_of_predictions_lists := Some (map (oob_list X bags ms) [0..<length X])\<rparr>)"
proof -
  from assms(1) have a: "data st = Some X" "indices_list st = Some bags" "models_list st = Some ms"
    "length bags = nat (num_bags st)" "length ms = nat (num_bags st)"
    by (auto simp: fitted_def)
  have "oob_example_loop st X [0..<length X] [] = Inr ([] @ map (oob_list X bags ms) [0..<length X])"
    by (rule oob_example_loop_char[OF a(2,3,4,5) assms(2)]) simp
  with a(1) show ?thesis by (simp add: get_oob_predictions_from_every_model_def)
qed

lemma get_averaged_fitted:
  assumes "fitted st X y bags ms" "\<forall>m \<in> set ms. \<forall>x. m [x] \<noteq> []"
  shows "get_averaged_oob_predictions st =
           Inr (st\<lparr>list_of_predictions_lists := Some (map (oob_list X bags ms) [0..<length X]),
                   oob_predictions := Some (map (\<lambda>i. average_one (num_bags st) (oob_list X bags ms i)) [0..<length X])\<rparr>)"
  using get_oob_fitted[OF assms] by (simp add: get_averaged_oob_predictions_def comp_def)

lemma score_loop_char:
  assumes "oob_predictions st = Some P" "target st = Some T"
    and "\<forall>i \<in> set is. i < length P \<and> (P ! i \<noteq> None \<longrightarrow> i < length T)"
  shows "score_loop st is acc = Inr (acc @ map (squared_error P T) (filter (scored P T) is))"
  using assms(3)
proof (induction "is" arbitrary: acc)
  case Nil
  then show ?case by simp
next
  case (Cons i rest)
  then have i: "i < length P" "P ! i \<noteq> None \<longrightarrow> i < length T" by auto
  from Cons have IH: "\<And>acc. score_loop st rest acc = Inr (acc @ map (squared_error P T) (filter (scored P T) rest))"
    by simp
  show ?case
  proof (cases "P ! i")
    case None
    then have "\<not> scored P T i" by (simp add: scored_def)
    then show ?thesis using None assms(1,2) i IH by (simp add: nth_e_def)
  next
    case (Some p)
    then have "scored P T i = (\<not> isnan (fl_sq (fl_sub p (T ! i))))"
      "squared_error P T i = fl_sq (fl_sub p (T ! i))"
      by (simp_all add: scored_def squared_error_def)
    then show ?thesis using Some assms(1,2) i IH by (simp add: nth_e_def)
  qed
qed

lemma oob_list_short:
  assumes "length (oob_list X bags ms i) < length bags"
  shows "\<exists>b<length bags. i \<in> set (bags ! b)"
proof (rule ccontr)
  assume "\<not> ?thesis"
  then have "filter (\<lambda>b. i \<notin> set (bags ! b)) [0..<length bags] = [0..<length bags]"
    by (auto simp: filter_id_conv)
  then have "length (oob_list X bags ms i) = length bags" by (simp add: oob_list_def)
  with assms show False by simp
qed

lemma OOB_score_fitted:
  assumes "fitted st X y bags ms" "\<forall>m \<in> set ms. \<forall>x. m [x] \<noteq> []"
    and "L = map (oob_list X bags ms) [0..<length X]"
    and "P = map (average_one (num_bags st)) L"
  shows "OOB_score st =
           Inr (np_mean (map (squared_error P y) (filter (scored P y) [0..<length X])),
                st\<lparr>list_of_predictions_lists := Some L, oob_predictions := Some P\<rparr>)"
proof -
  let ?st1 = "st\<lparr>list_of_predictions_lists := Some L, oob_predictions := Some P\<rparr>"
  have av: "get_averaged_oob_predictions st = Inr ?st1"
    using get_averaged_fitted[OF assms(1,2)] assms(3,4) by (simp add: comp_def)
  from assms(1) have f: "data st = Some X" "target st = Some y" "length bags = nat (num_bags st)"
    "1 \<le> num_bags st"
    "\<forall>b \<in> set bags. \<forall>i \<in> set b. i < length y"
    by (auto simp: fitted_def list_all_iff)
  have lp: "length P = length X" using assms(3,4) by simp
  have inb: "i < length y" if "i < length X" "P ! i \<noteq> None" for i
  proof -
    from that assms(3,4) have "average_one (num_bags st) (oob_list X bags ms i) \<noteq> None" by simp
    then have "int (length (oob_list X bags ms i)) < num_bags st"
      by (simp add: average_one_def split: if_splits)
    with f(3,4) have "length (oob_list X bags ms i) < length bags" by simp
    from oob_list_short[OF this] obtain b where "b < length bags" "i \<in> set (bags ! b)" by blast
    with f(5) show ?thesis by (metis nth_mem)
  qed
  have "score_loop ?st1 [0..<length X] [] =
          Inr ([] @ map (squared_error P y) (filter (scored P y) [0..<length X]))"
    by (rule score_loop_char) (use f(2) lp inb in auto)
  with av f(1) show ?thesis by (simp add: OOB_score_def)
qed

section \<open>What the out-of-bag loops read\<close>

lemma oob_bag_loop_frame:
  "indices_list s' = indices_list s \<Longrightarrow> models_list s' = models_list s \<Longrightarrow>
   oob_bag_loop s' x i bs acc = oob_bag_loop s x i bs acc"
  by (induction bs arbitrary: acc) (auto split: option.splits sum.splits list.splits)

lemma oob_example_loop_frame:
  "indices_list s' = indices_list s \<Longrightarrow> models_list s' = models_list s \<Longrightarrow>
   num_bags s' = num_bags s \<Longrightarrow>
   oob_example_loop s' X is acc = oob_example_loop s X is acc"
  by (induction "is" arbitrary: acc)
     (auto simp: oob_bag_loop_frame[of s' s] split: sum.splits)

section \<open>The worked ensemble, evaluated\<close>

lemma ex_fit: "fit mean_stub choice_script (init 2 True) ex_X ex_y ex_bags = Inr (ex_fitted, [])"
  by (simp add: fit_def generate_splits_def init_def ex_X_def ex_y_def ex_bags_def ex_fitted_def
      ex_models_def choice_script_def bags_same_length_def bags_data_length_def nth_e_def
      numeral_2_eq_2 upt_rec)

lemma ex_model0: "(ex_models ! 0) xs = replicate (length xs) (Fin (3 / 2))"
  by (simp add: ex_models_def mean_stub_def np_mean_def)

lemma ex_model1: "(ex_models ! Suc 0) xs = replicate (length xs) (Fin 2)"
  by (simp add: ex_models_def mean_stub_def np_mean_def)

lemma ex_models_length: "length ex_models = 2"
  by (simp add: ex_models_def)

lemma ex_answers: "\<forall>m \<in> set ex_models. \<forall>x. m [x] \<noteq> []"
  by (simp add: ex_models_def mean_stub_def)

lemma ex_fitted_models: "models_list ex_fitted = Some ex_models"
  by (simp add: ex_fitted_def)

lemma ex_fitted_indices: "indices_list ex_fitted = Some ex_bags"
  by (simp add: ex_fitted_def)

lemma ex_oob: "get_oob_predictions_from_every_model ex_fitted =
   Inr (ex_fitted\<lparr>list_of_predictions_lists := Some ex_lists\<rparr>)"
  by (simp add: get_oob_predictions_from_every_model_def ex_fitted_def ex_X_def ex_bags_def nth_e_def
      upt_rec numeral_2_eq_2 ex_model0 ex_model1 ex_models_length ex_lists_def)

lemma ex_avg: "get_averaged_oob_predictions ex_fitted = Inr ex_averaged"
  by (simp add: get_averaged_oob_predictions_def ex_oob average_one_def np_mean_def ex_lists_def
      ex_averaged_def ex_averages_def)
     (simp add: ex_fitted_def)

lemma ex_score: "OOB_score ex_fitted = Inr (Fin (9 / 8), ex_averaged)"
  by (simp add: OOB_score_def ex_avg)
     (simp add: ex_averaged_def ex_averages_def ex_fitted_def ex_X_def ex_y_def nth_e_def upt_rec np_mean_def)

lemma cycle_contract: "choice_contract choice_cycle"
  by (simp add: choice_contract_def choice_cycle_def)

lemma ex1_fit: "fit mean_stub choice_script (init 1 True) ex_X ex_y ex1_bags = Inr (ex1_fitted, [])"
  by (simp add: fit_def generate_splits_def init_def ex_X_def ex_y_def ex1_bags_def ex1_fitted_def
      ex1_models_def choice_script_def bags_same_length_def bags_data_length_def nth_e_def upt_rec)

lemma ex1_model0: "(ex1_models ! 0) xs = replicate (length xs) (Fin (3 / 2))"
  by (simp add: ex1_models_def mean_stub_def np_mean_def)

lemma ex1_answers: "\<forall>m \<in> set ex1_models. \<forall>x. m [x] \<noteq> []"
  by (simp add: ex1_models_def mean_stub_def)

lemma ex1_fitted_models: "models_list ex1_fitted = Some ex1_models"
  by (simp add: ex1_fitted_def)

lemma ex1_fitted_indices: "indices_list ex1_fitted = Some ex1_bags"
  by (simp add: ex1_fitted_def)

lemma ex1_oob: "get_oob_predictions_from_every_model ex1_fitted =
   Inr (ex1_fitted\<lparr>list_of_predictions_lists := Some ex1_lists\<rparr>)"
  by (simp add: get_oob_predictions_from_every_model_def ex1_fitted_def ex_X_def ex1_bags_def nth_e_def
      upt_rec ex1_model0 ex1_lists_def) (simp add: ex1_models_def)

lemma ex1_avg: "get_averaged_oob_predictions ex1_fitted = Inr ex1_averaged"
  by (simp add: get_averaged_oob_predictions_def ex1_oob average_one_def np_mean_def ex1_lists_def
      ex1_averaged_def ex1_averages_def)
     (simp add: ex1_fitted_def)

lemma ex1_score: "OOB_score ex1_fitted = Inr (NaN, ex1_averaged)"
  by (simp add: OOB_score_def ex1_avg)
     (simp add: ex1_averaged_def ex1_averages_def ex1_fitted_def ex_X_def ex_y_def nth_e_def upt_rec np_mean_def)

section \<open>The score on scalar targets\<close>

text \<open>
  With scalar targets, on a fitted ensemble whose models answer a one-element batch,
  \<open>OOB_score\<close> raises nothing: it returns the mean of the squared errors of exactly the
  examples whose entry in the table left by the averaging step is present and whose squared
  error is not \<open>NaN\<close>, and \<open>NaN\<close> when there is no such example.
\<close>

lemma OOB_score_scalar:
  assumes "fit model_constructor choice st0 X y g = Inr (st, g')"
    and "models_list st = Some ms"
    and "\<forall>m \<in> set ms. \<forall>x. m [x] \<noteq> []"
  shows "\<exists>P st'. get_averaged_oob_predictions st = Inr st' \<and>
           oob_predictions st' = Some P \<and> length P = length X \<and>
           OOB_score st =
             Inr (np_mean (map (squared_error P y) (filter (scored P y) [0..<length X])), st') \<and>
           (\<forall>i<length X. scored P y i = (\<exists>p. P ! i = Some p \<and> \<not> isnan (fl_sq (fl_sub p (y ! i))))) \<and>
           (\<forall>i<length X. \<forall>p. P ! i = Some p \<longrightarrow> squared_error P y i = fl_sq (fl_sub p (y ! i))) \<and>
           (filter (scored P y) [0..<length X] = [] \<longrightarrow> OOB_score st = Inr (NaN, st'))"
proof -
  from fit_fitted[OF assms(1)] assms(2) obtain bags where f: "fitted st X y bags ms"
    by (auto simp: fitted_def)
  define L where "L = map (oob_list X bags ms) [0..<length X]"
  define P where "P = map (average_one (num_bags st)) L"
  let ?st' = "st\<lparr>list_of_predictions_lists := Some L, oob_predictions := Some P\<rparr>"
  have av: "get_averaged_oob_predictions st = Inr ?st'"
    using get_averaged_fitted[OF f assms(3)] by (simp add: L_def P_def comp_def)
  have sc: "OOB_score st =
      Inr (np_mean (map (squared_error P y) (filter (scored P y) [0..<length X])), ?st')"
    by (rule OOB_score_fitted[OF f assms(3) L_def P_def])
  have lp: "length P = length X" by (simp add: P_def L_def)
  have a: "\<forall>i<length X. scored P y i = (\<exists>p. P ! i = Some p \<and> \<not> isnan (fl_sq (fl_sub p (y ! i))))"
    by (auto simp: scored_def split: option.splits)
  have b: "\<forall>i<length X. \<forall>p. P ! i = Some p \<longrightarrow> squared_error P y i = fl_sq (fl_sub p (y ! i))"
    by (simp add: squared_error_def)
  have c: "filter (scored P y) [0..<length X] = [] \<longrightarrow> OOB_score st = Inr (NaN, ?st')"
    using sc by (simp add: np_mean_def)
  have "oob_predictions ?st' = Some P" by simp
  with av sc lp a b c show ?thesis by blast
qed

section \<open>The two-output ensembles, evaluated\<close>

lemma ex2_fit: "fit mean_stub2 choice_script (init 2 True) ex2_X ex2_y ex2_bags = Inr (ex2_fitted, [])"
  by (simp add: fit_def generate_splits_def init_def ex2_X_def ex2_y_def ex2_bags_def ex2_fitted_def
      ex2_models_def choice_script_def bags_same_length_def bags_data_length_def nth_e_def
      numeral_2_eq_2 upt_rec)

lemma ex2_model0: "(ex2_models ! 0) xs = replicate (length xs) (Fin 1, Fin 2)"
  by (simp add: ex2_models_def mean_stub2_def pair_mean_def np_mean_def)

lemma ex2_model1: "(ex2_models ! Suc 0) xs = replicate (length xs) (Fin 3, Fin 4)"
  by (simp add: ex2_models_def mean_stub2_def pair_mean_def np_mean_def)

lemma ex2_models_length: "length ex2_models = 2"
  by (simp add: ex2_models_def)

lemma ex2_oob: "get_oob_predictions_from_every_model ex2_fitted =
   Inr (ex2_fitted\<lparr>list_of_predictions_lists := Some ex2_lists\<rparr>)"
  by (simp add: get_oob_predictions_from_every_model_def ex2_fitted_def ex2_X_def ex2_bags_def nth_e_def
      upt_rec numeral_2_eq_2 ex2_model0 ex2_model1 ex2_models_length ex2_lists_def)

lemma ex2_avg: "get_averaged_oob_predictions2 ex2_fitted = Inr ex2_averaged"
  by (simp add: get_averaged_oob_predictions2_def ex2_oob average_one2_def np_mean2_def pair_mean_def
      np_mean_def rectangular_def ex2_lists_def ex2_averaged_def)
     (simp add: ex2_fitted_def)

lemma ex2_score: "OOB_score2 ex2_fitted = Inl TypeError"
  by (simp add: OOB_score2_def ex2_avg)
     (simp add: ex2_averaged_def ex2_fitted_def ex2_X_def ex2_y_def nth_e_def upt_rec)

text \<open>
  When the lists have different lengths the averaged predictions are float64 arrays and the
  score is returned: the four examples of the first ensemble with a second output that is
  always 0.
\<close>

lemma ex3_fit: "fit mean_stub2 choice_script (init 2 True) ex_X ex3_y ex_bags = Inr (ex3_fitted, [])"
  by (simp add: fit_def generate_splits_def init_def ex_X_def ex3_y_def ex_bags_def ex3_fitted_def
      ex3_models_def choice_script_def bags_same_length_def bags_data_length_def nth_e_def
      numeral_2_eq_2 upt_rec)

lemma ex3_model0: "(ex3_models ! 0) xs = replicate (length xs) (Fin (3 / 2), Fin 0)"
  by (simp add: ex3_models_def mean_stub2_def pair_mean_def np_mean_def)

lemma ex3_model1: "(ex3_models ! Suc 0) xs = replicate (length xs) (Fin 2, Fin 0)"
  by (simp add: ex3_models_def mean_stub2_def pair_mean_def np_mean_def)

lemma ex3_models_length: "length ex3_models = 2"
  by (simp add: ex3_models_def)

lemma ex3_avg: "get_averaged_oob_predictions2 ex3_fitted = Inr ex3_averaged"
  by (simp add: get_averaged_oob_predictions2_def get_oob_predictions_from_every_model_def
      ex3_fitted_def ex_X_def ex_bags_def nth_e_def upt_rec numeral_2_eq_2 ex3_model0 ex3_model1
      ex3_models_length average_one2_def np_mean2_def pair_mean_def np_mean_def rectangular_def
      ex3_averaged_def)

lemma ex3_score: "OOB_score2 ex3_fitted = Inr (Arr2 False (Fin (9 / 8), Fin 0), ex3_averaged)"
  by (simp add: OOB_score2_def ex3_avg)
     (simp add: ex3_averaged_def ex3_fitted_def ex_X_def ex3_y_def nth_e_def upt_rec np_mean2_def
       pair_mean_def np_mean_def)

section \<open>The claims\<close>

text \<open>
  C7. For a non-empty dataset of \<open>N\<close> examples and a positive \<open>num_bags\<close>, and a random
  source that honours numpy's contract, the sampler stores exactly \<open>num_bags\<close> bags, each a
  sequence of exactly \<open>N\<close> indices, every index below \<open>N\<close>.
\<close>

theorem generate_splits_bags:
  assumes "choice_contract choice" "0 < length X" "0 < num_bags st"
  shows "\<exists>bags. indices_list (fst (generate_splits choice st X g)) = Some bags \<and>
           int (length bags) = num_bags st \<and>
           (\<forall>b \<in> set bags. length b = length X \<and> (\<forall>j \<in> set b. j < length X))"
proof -
  let ?bags = "fst (generate_splits_loop choice (length X) (nat (num_bags st)) [] g)"
  have "indices_list (fst (generate_splits choice st X g)) = Some ?bags"
    by (simp add: generate_splits_def split: prod.splits)
  moreover have "int (length ?bags) = num_bags st"
    using assms(3) by (simp add: generate_splits_loop_length)
  moreover have "\<forall>b \<in> set ?bags. length b = length X \<and> (\<forall>j \<in> set b. j < length X)"
    by (rule generate_splits_loop_bags[OF assms(1,2)]) simp
  ultimately show ?thesis by blast
qed

theorem generate_splits_bags_witness:
  "choice_contract choice_cycle \<and> 0 < length ex_X \<and> 0 < num_bags (init 2 False :: nat regressor) \<and>
   (\<exists>bags. indices_list (fst (generate_splits choice_cycle (init 2 False :: nat regressor) ex_X 1)) = Some bags \<and>
      int (length bags) = num_bags (init 2 False :: nat regressor) \<and>
      (\<forall>b \<in> set bags. length b = length ex_X \<and> (\<forall>j \<in> set b. j < length ex_X))) \<and>
   indices_list (fst (generate_splits choice_cycle (init 2 False :: nat regressor) ex_X 1)) = Some [[1, 2, 1, 2], [2, 3, 2, 3]]"
proof -
  have c: "choice_contract choice_cycle" by (rule cycle_contract)
  have x: "0 < length ex_X" by (simp add: ex_X_def)
  have n: "0 < num_bags (init 2 False :: nat regressor)" by (simp add: init_def)
  have v: "indices_list (fst (generate_splits choice_cycle (init 2 False :: nat regressor) ex_X 1)) = Some [[1, 2, 1, 2], [2, 3, 2, 3]]"
    by (simp add: generate_splits_def init_def ex_X_def choice_cycle_def numeral_2_eq_2 upt_rec)
  from generate_splits_bags[OF c x n, of 1] c x n v show ?thesis by blast
qed

text \<open>
  C6. For a non-empty dataset and a positive \<open>num_bags\<close>, and a random source that honours
  numpy's contract, both assertions of \<open>fit\<close> hold on the bags the sampler has produced
  (one common length; that length is \<open>len(data)\<close>), so \<open>fit\<close> never raises
  \<^verbatim>\<open>AssertionError\<close>.
\<close>

theorem fit_assertions_hold:
  assumes "choice_contract choice" "0 < length X" "0 < num_bags st"
  shows "fit model_constructor choice st X y g \<noteq> Inl AssertionError \<and>
         (\<exists>bags. indices_list (fst (generate_splits choice (st\<lparr>data := Some X, target := Some y\<rparr>) X g)) = Some bags \<and>
            bags_same_length bags \<and> bags_data_length bags (length X) = Inr True)"
proof -
  obtain bags g1 where gl: "generate_splits_loop choice (length X) (nat (num_bags st)) [] g = (bags, g1)"
    by (cases "generate_splits_loop choice (length X) (nat (num_bags st)) [] g")
  have lb: "length bags = nat (num_bags st)"
    using generate_splits_loop_length[of choice "length X" "nat (num_bags st)" "[]" g] gl by simp
  with assms(3) obtain b bs where bags: "bags = b # bs" by (cases bags) auto
  have all: "\<forall>b \<in> set bags. length b = length X"
    using generate_splits_loop_bags[OF assms(1,2), of "[]" "nat (num_bags st)" g] gl by simp
  then have "set (map length bags) = {length X}" using bags by auto
  then have same: "bags_same_length bags" by (simp add: bags_same_length_def)
  have dl: "bags_data_length bags (length X) = Inr True"
    using bags all by (simp add: bags_data_length_def)
  have "fit model_constructor choice st X y g \<noteq> Inl AssertionError"
    using gl same dl
    by (auto simp: fit_def generate_splits_def Let_def split: sum.splits dest: fit_loop_Inl)
  moreover have "indices_list (fst (generate_splits choice (st\<lparr>data := Some X, target := Some y\<rparr>) X g)) = Some bags"
    using gl by (simp add: generate_splits_def)
  ultimately show ?thesis using same dl by blast
qed

theorem fit_assertions_hold_witness:
  "choice_contract choice_cycle \<and> 0 < length ex_X \<and> 0 < num_bags (init 2 False :: nat regressor) \<and>
   fit mean_stub choice_cycle (init 2 False :: nat regressor) ex_X ex_y 1 \<noteq> Inl AssertionError \<and>
   (\<exists>bags. indices_list (fst (generate_splits choice_cycle
              ((init 2 False :: nat regressor)\<lparr>data := Some ex_X, target := Some ex_y\<rparr>) ex_X 1)) = Some bags \<and>
      bags_same_length bags \<and> bags_data_length bags (length ex_X) = Inr True)"
proof -
  have c: "choice_contract choice_cycle" by (rule cycle_contract)
  have x: "0 < length ex_X" by (simp add: ex_X_def)
  have n: "0 < num_bags (init 2 False :: nat regressor)" by (simp add: init_def)
  from fit_assertions_hold[OF c x n, of mean_stub ex_y 1] c x n show ?thesis by blast
qed

text \<open>
  C8. On a fitted ensemble whose models answer a one-element batch, the gathering step
  returns one list per training example, and the list of example \<open>i\<close> holds, in the order of
  the bags, the prediction \<^verbatim>\<open>model.predict([data[i]])[0]\<close> of exactly the models whose
  bag does not contain \<open>i\<close>.
\<close>

theorem oob_gathering:
  assumes "fit model_constructor choice st0 X y g = Inr (st, g')"
    and "models_list st = Some ms" "indices_list st = Some bags"
    and "\<forall>m \<in> set ms. \<forall>x. m [x] \<noteq> []"
  shows "\<exists>L. get_oob_predictions_from_every_model st = Inr (st\<lparr>list_of_predictions_lists := Some L\<rparr>) \<and>
           length L = length X \<and>
           (\<forall>i<length X. L ! i = map (\<lambda>b. hd ((ms ! b) [X ! i]))
                                   (filter (\<lambda>b. i \<notin> set (bags ! b)) [0..<nat (num_bags st)]))"
proof -
  have f: "fitted st X y bags ms" by (rule fit_fitted_with[OF assms(1,2,3)])
  then have lb: "length bags = nat (num_bags st)" by (simp add: fitted_def)
  let ?L = "map (oob_list X bags ms) [0..<length X]"
  have "get_oob_predictions_from_every_model st = Inr (st\<lparr>list_of_predictions_lists := Some ?L\<rparr>)"
    by (rule get_oob_fitted[OF f assms(4)])
  moreover have "length ?L = length X" by simp
  moreover have "\<forall>i<length X. ?L ! i = map (\<lambda>b. hd ((ms ! b) [X ! i]))
                                   (filter (\<lambda>b. i \<notin> set (bags ! b)) [0..<nat (num_bags st)])"
    using lb by (simp add: oob_list_def)
  ultimately show ?thesis by blast
qed

theorem oob_gathering_witness:
  "fit mean_stub choice_script (init 2 True) ex_X ex_y ex_bags = Inr (ex_fitted, []) \<and>
   (\<exists>L. get_oob_predictions_from_every_model ex_fitted = Inr (ex_fitted\<lparr>list_of_predictions_lists := Some L\<rparr>) \<and>
        length L = length ex_X \<and>
        (\<forall>i<length ex_X. L ! i = map (\<lambda>b. hd ((ex_models ! b) [ex_X ! i]))
           (filter (\<lambda>b. i \<notin> set (ex_bags ! b)) [0..<nat (num_bags ex_fitted)]))) \<and>
   get_oob_predictions_from_every_model ex_fitted = Inr (ex_fitted\<lparr>list_of_predictions_lists := Some ex_lists\<rparr>)"
  using oob_gathering[OF ex_fit ex_fitted_models ex_fitted_indices ex_answers] ex_fit ex_oob
  by simp

text \<open>
  C5. On a fitted ensemble whose models each return one prediction per queried example,
  \<open>predict\<close> on \<open>M\<close> examples returns an array of \<open>M\<close> values, the \<open>i\<close>-th being the mean,
  over all \<open>num_bags\<close> fitted models, of the model's prediction for example \<open>i\<close>.
\<close>

theorem predict_mean_of_models:
  assumes "fit model_constructor choice st0 X y g = Inr (st, g')"
    and "models_list st = Some ms"
    and "\<forall>m \<in> set ms. length (m Xq) = length Xq"
  shows "int (length ms) = num_bags st \<and>
         (\<exists>ys. predict st Xq = Inr (Array ys) \<and> length ys = length Xq \<and>
                (\<forall>i<length Xq. ys ! i = np_mean (map (\<lambda>m. m Xq ! i) ms)))"
proof -
  from fit_fitted[OF assms(1)] assms(2) obtain bags where f: "fitted st X y bags ms"
    by (auto simp: fitted_def)
  then have n: "1 \<le> num_bags st" "length ms = nat (num_bags st)" by (auto simp: fitted_def)
  then have ne: "map (\<lambda>m. m Xq) ms \<noteq> []" by auto
  have rows: "\<forall>r \<in> set (map (\<lambda>m. m Xq) ms). length r = length Xq" using assms(3) by simp
  from np_mean_axis0_columns[OF ne rows] obtain ys where
    ys: "np_mean_axis0 (map (\<lambda>m. m Xq) ms) = Inr (Array ys)" "length ys = length Xq"
      "\<forall>i<length Xq. ys ! i = np_mean (map (\<lambda>r. r ! i) (map (\<lambda>m. m Xq) ms))"
    by blast
  have "predict st Xq = Inr (Array ys)" using assms(2) ys(1) by (simp add: predict_def)
  moreover have "\<forall>i<length Xq. ys ! i = np_mean (map (\<lambda>m. m Xq ! i) ms)"
    using ys(3) by (simp add: comp_def)
  ultimately show ?thesis using n ys(2) by auto
qed

theorem predict_mean_of_models_witness:
  "fit mean_stub choice_script (init 2 True) ex_X ex_y ex_bags = Inr (ex_fitted, []) \<and>
   int (length ex_models) = num_bags ex_fitted \<and>
   (\<exists>ys. predict ex_fitted [7, 8, 9] = Inr (Array ys) \<and> length ys = length [7, 8, 9 :: nat] \<and>
          (\<forall>i<length [7, 8, 9 :: nat]. ys ! i = np_mean (map (\<lambda>m. m [7, 8, 9] ! i) ex_models))) \<and>
   predict ex_fitted [7, 8, 9] = Inr (Array [Fin (7 / 4), Fin (7 / 4), Fin (7 / 4)])"
proof -
  have a: "\<forall>m \<in> set ex_models. length (m [7, 8, 9 :: nat]) = length [7, 8, 9 :: nat]"
    by (simp add: ex_models_def mean_stub_def)
  have v: "predict ex_fitted [7, 8, 9] = Inr (Array [Fin (7 / 4), Fin (7 / 4), Fin (7 / 4)])"
    by (simp add: predict_def ex_fitted_def ex_models_def mean_stub_def np_mean_def np_mean_axis0_def)
  from predict_mean_of_models[OF ex_fit ex_fitted_models a] ex_fit v show ?thesis by blast
qed

text \<open>
  C10. \<open>fit\<close> stores the data and the targets before it looks at the \<open>oob\<close> flag: a fit
  with \<open>oob = False\<close> that returns leaves both on the ensemble, the same fit with
  \<open>oob = True\<close> returns the same ensemble up to the flag (its branch only assigns the two
  fields again), and \<open>OOB_score\<close> on the ensemble fitted with \<open>oob = False\<close> finds every
  attribute it reads.
\<close>

theorem fit_keeps_data_without_oob:
  assumes "fit model_constructor choice (st0\<lparr>oob := False\<rparr>) X y g = Inr (st, g')"
  shows "data st = Some X \<and> target st = Some y \<and> oob st = False \<and>
         fit model_constructor choice (st0\<lparr>oob := True\<rparr>) X y g = Inr (st\<lparr>oob := True\<rparr>, g') \<and>
         OOB_score st \<noteq> Inl AttributeError"
proof -
  obtain bags g1 where gl: "generate_splits_loop choice (length X) (nat (num_bags st0)) [] g = (bags, g1)"
    by (cases "generate_splits_loop choice (length X) (nat (num_bags st0)) [] g")
  from assms gl obtain ms where
    same: "bags_same_length bags" and dl: "bags_data_length bags (length X) = Inr True"
    and fl: "fit_loop model_constructor X y bags [0..<nat (num_bags st0)] [] = Inr ms"
    and st: "st = st0\<lparr>oob := False, data := Some X, target := Some y, indices_list := Some bags,
                     models_list := Some ms\<rparr>"
    and g': "g' = g1"
    by (auto simp: fit_def generate_splits_def Let_def split: sum.splits if_splits)
  have t: "fit model_constructor choice (st0\<lparr>oob := True\<rparr>) X y g = Inr (st\<lparr>oob := True\<rparr>, g')"
    using gl same dl fl st g' by (simp add: fit_def generate_splits_def Let_def)
  have d: "data st = Some X" "target st = Some y" "oob st = False" "indices_list st = Some bags"
    "models_list st = Some ms"
    using st by simp_all
  have bag: "oob_bag_loop st x i bs acc \<noteq> Inl AttributeError" for x i bs acc
    using d(4,5)
    by (induction bs arbitrary: acc) (auto simp: nth_e_def split: sum.splits list.splits)
  have ex: "oob_example_loop st X is acc \<noteq> Inl AttributeError" for "is" acc
    using bag by (induction "is" arbitrary: acc) (auto simp: nth_e_def split: sum.splits)
  have sc: "score_loop s is acc \<noteq> Inl AttributeError"
    if "oob_predictions s \<noteq> None" "target s \<noteq> None" for s :: "'a regressor" and "is" acc
    using that
    by (induction "is" arbitrary: acc) (auto simp: nth_e_def split: sum.splits option.splits)
  have "OOB_score st \<noteq> Inl AttributeError"
    using d(1,2) ex sc
    by (auto simp: OOB_score_def get_averaged_oob_predictions_def
        get_oob_predictions_from_every_model_def split: sum.splits option.splits)
  with d t show ?thesis by simp
qed

theorem fit_keeps_data_without_oob_witness:
  "fit mean_stub choice_script ((init 2 True)\<lparr>oob := False\<rparr>) ex_X ex_y ex_bags = Inr (ex_fitted\<lparr>oob := False\<rparr>, []) \<and>
   data (ex_fitted\<lparr>oob := False\<rparr>) = Some ex_X \<and> target (ex_fitted\<lparr>oob := False\<rparr>) = Some ex_y \<and>
   fit mean_stub choice_script ((init 2 True)\<lparr>oob := True\<rparr>) ex_X ex_y ex_bags = Inr (ex_fitted\<lparr>oob := False, oob := True\<rparr>, []) \<and>
   OOB_score (ex_fitted\<lparr>oob := False\<rparr>) \<noteq> Inl AttributeError"
proof -
  have h: "fit mean_stub choice_script ((init 2 True)\<lparr>oob := False\<rparr>) ex_X ex_y ex_bags = Inr (ex_fitted\<lparr>oob := False\<rparr>, [])"
    by (simp add: fit_def generate_splits_def init_def ex_X_def ex_y_def ex_bags_def ex_fitted_def
        ex_models_def choice_script_def bags_same_length_def bags_data_length_def nth_e_def
        numeral_2_eq_2 upt_rec)
  from fit_keeps_data_without_oob[OF h] h show ?thesis by simp
qed

text \<open>
  C9. \<open>OOB_score\<close> reads only what \<open>fit\<close> has stored and overwrites only the two tables it
  rebuilds: when a call returns, a second call on the ensemble it leaves returns the same
  score and leaves the same ensemble. (Base models are functions here, so their predictions
  are deterministic; the two scores are the same value, also when that value is \<open>NaN\<close>.)
\<close>

theorem OOB_score_twice:
  assumes "OOB_score st = Inr (r, st')"
  shows "OOB_score st' = Inr (r, st')"
proof -
  from assms obtain X L errs where
    d: "data st = Some X" and
    l: "oob_example_loop st X [0..<length X] [] = Inr L" and
    st': "st' = st\<lparr>list_of_predictions_lists := Some L,
                    oob_predictions := Some (map (average_one (num_bags st)) L)\<rparr>" and
    s: "score_loop st' [0..<length X] [] = Inr errs" and
    r: "r = np_mean errs"
    by (auto simp: OOB_score_def get_averaged_oob_predictions_def
        get_oob_predictions_from_every_model_def split: sum.splits option.splits)
  have ex: "oob_example_loop st' X is acc = oob_example_loop st X is acc" for "is" acc
    by (rule oob_example_loop_frame) (simp_all add: st')
  have same: "st'\<lparr>list_of_predictions_lists := Some L,
                 oob_predictions := Some (map (average_one (num_bags st')) L)\<rparr> = st'"
    by (simp add: st')
  have "data st' = Some X" using d by (simp add: st')
  then show ?thesis
    using ex l s r same
    by (simp add: OOB_score_def get_averaged_oob_predictions_def
        get_oob_predictions_from_every_model_def)
qed

theorem OOB_score_twice_witness:
  "OOB_score ex_fitted = Inr (Fin (9 / 8), ex_averaged) \<and>
   OOB_score ex_averaged = Inr (Fin (9 / 8), ex_averaged)"
  using OOB_score_twice[OF ex_score] ex_score by simp

text \<open>
  C4. \<open>OOB_score\<close> on two-output targets, where every list of out-of-bag predictions has
  the same length: two examples, \<open>num_bags = 2\<close>, the bags \<open>[0, 0]\<close> and \<open>[1, 1]\<close>. Each
  example has one out-of-bag prediction, fewer than \<open>num_bags\<close>, so its averaged prediction
  is present; it is an object array, and the test for \<open>NaN\<close> on its squared error raises
  \<^verbatim>\<open>TypeError\<close>. No score is returned.
\<close>

theorem OOB_score_raises_on_two_output_targets:
  "fit mean_stub2 choice_script (init 2 True) ex2_X ex2_y ex2_bags = Inr (ex2_fitted, []) \<and>
   get_averaged_oob_predictions2 ex2_fitted = Inr ex2_averaged \<and>
   list_of_predictions_lists ex2_averaged = Some [[(Fin 3, Fin 4)], [(Fin 1, Fin 2)]] \<and>
   oob_predictions ex2_averaged = Some [Some (Arr2 True (Fin 3, Fin 4)), Some (Arr2 True (Fin 1, Fin 2))] \<and>
   OOB_score2 ex2_fitted = Inl TypeError"
  using ex2_fit ex2_avg ex2_score by (simp add: ex2_averaged_def ex2_lists_def)

text \<open>
  C3. With \<open>num_bags = 1\<close>, on a fitted ensemble whose model answers a one-element batch:
  there is one bag and one model; an example outside the bag has exactly one out-of-bag
  prediction, \<^verbatim>\<open>model.predict([data[i]])[0]\<close>; an example inside the bag has none, and is
  not among the examples whose squared errors \<open>OOB_score\<close> averages.
\<close>

theorem single_bag_oob:
  assumes "num_bags st0 = 1"
    and "fit model_constructor choice st0 X y g = Inr (st, g')"
    and "models_list st = Some ms" "indices_list st = Some bags"
    and "\<forall>m \<in> set ms. \<forall>x. m [x] \<noteq> []"
  shows "\<exists>bag model L P. bags = [bag] \<and> ms = [model] \<and>
           get_oob_predictions_from_every_model st = Inr (st\<lparr>list_of_predictions_lists := Some L\<rparr>) \<and>
           length L = length X \<and>
           (\<forall>i<length X. L ! i = (if i \<in> set bag then [] else [hd (model [X ! i])])) \<and>
           OOB_score st =
             Inr (np_mean (map (squared_error P y) (filter (scored P y) [0..<length X])),
                  st\<lparr>list_of_predictions_lists := Some L, oob_predictions := Some P\<rparr>) \<and>
           (\<forall>i<length X. i \<in> set bag \<longrightarrow> \<not> scored P y i)"
proof -
  have f: "fitted st X y bags ms" by (rule fit_fitted_with[OF assms(2,3,4)])
  from fit_fitted[OF assms(2)] assms(1) have nb: "num_bags st = 1" by auto
  with f have "length bags = 1" "length ms = 1" by (auto simp: fitted_def)
  then obtain bag model where bm: "bags = [bag]" "ms = [model]"
    by (cases bags; cases ms) auto
  define L where "L = map (oob_list X bags ms) [0..<length X]"
  define P where "P = map (average_one (num_bags st)) L"
  have g: "get_oob_predictions_from_every_model st = Inr (st\<lparr>list_of_predictions_lists := Some L\<rparr>)"
    unfolding L_def by (rule get_oob_fitted[OF f assms(5)])
  have sc: "OOB_score st =
      Inr (np_mean (map (squared_error P y) (filter (scored P y) [0..<length X])),
           st\<lparr>list_of_predictions_lists := Some L, oob_predictions := Some P\<rparr>)"
    by (rule OOB_score_fitted[OF f assms(5) L_def P_def])
  have l: "\<forall>i<length X. L ! i = (if i \<in> set bag then [] else [hd (model [X ! i])])"
    by (simp add: L_def oob_list_def bm)
  have len: "length L = length X" by (simp add: L_def)
  have "\<not> scored P y i" if "i < length X" "i \<in> set bag" for i
  proof -
    from that l have "L ! i = []" by simp
    with that(1) len have "P ! i = Some NaN"
      by (simp add: P_def nb average_one_def np_mean_def)
    then show ?thesis by (simp add: scored_def)
  qed
  then have ns: "\<forall>i<length X. i \<in> set bag \<longrightarrow> \<not> scored P y i" by blast
  from bm g len l sc ns show ?thesis by blast
qed

theorem single_bag_oob_witness:
  "num_bags (init 1 True :: nat regressor) = 1 \<and>
   fit mean_stub choice_script (init 1 True) ex_X ex_y ex1_bags = Inr (ex1_fitted, []) \<and>
   (\<exists>bag model L P. ex1_bags = [bag] \<and> ex1_models = [model] \<and>
           get_oob_predictions_from_every_model ex1_fitted = Inr (ex1_fitted\<lparr>list_of_predictions_lists := Some L\<rparr>) \<and>
           length L = length ex_X \<and>
           (\<forall>i<length ex_X. L ! i = (if i \<in> set bag then [] else [hd (model [ex_X ! i])])) \<and>
           OOB_score ex1_fitted =
             Inr (np_mean (map (squared_error P ex_y) (filter (scored P ex_y) [0..<length ex_X])),
                  ex1_fitted\<lparr>list_of_predictions_lists := Some L, oob_predictions := Some P\<rparr>) \<and>
           (\<forall>i<length ex_X. i \<in> set bag \<longrightarrow> \<not> scored P ex_y i)) \<and>
   get_oob_predictions_from_every_model ex1_fitted = Inr (ex1_fitted\<lparr>list_of_predictions_lists := Some ex1_lists\<rparr>) \<and>
   OOB_score ex1_fitted = Inr (NaN, ex1_averaged)"
proof -
  have n: "num_bags (init 1 True :: nat regressor) = 1" by (simp add: init_def)
  from single_bag_oob[OF n ex1_fit ex1_fitted_models ex1_fitted_indices ex1_answers]
    n ex1_fit ex1_oob ex1_score
  show ?thesis by blast
qed

text \<open>
  C1. The averaged-OOB step on the worked ensemble (\<open>num_bags = 2\<close>). Example 0 is in both
  bags: its list is empty, and the step stores the mean of the empty list, \<open>Some NaN\<close>, not
  \<open>None\<close>. Example 3 is in neither bag: its list holds both models' predictions, and the
  step stores \<open>None\<close>, not their mean.
\<close>

theorem averaged_oob_on_worked_ensemble:
  "fit mean_stub choice_script (init 2 True) ex_X ex_y ex_bags = Inr (ex_fitted, []) \<and>
   get_averaged_oob_predictions ex_fitted = Inr ex_averaged \<and>
   list_of_predictions_lists ex_averaged = Some [[], [Fin 2], [Fin (3 / 2)], [Fin (3 / 2), Fin 2]] \<and>
   oob_predictions ex_averaged = Some [Some NaN, Some (Fin 2), Some (Fin (3 / 2)), None]"
  using ex_fit ex_avg by (simp add: ex_averaged_def ex_lists_def ex_averages_def)

text \<open>
  C2, as stated, fails: on the worked ensemble the list of example 1 has one entry, fewer
  than \<open>num_bags = 2\<close>, and its averaged prediction is present.
\<close>

theorem averaged_oob_short_list_counterexample:
  "get_averaged_oob_predictions ex_fitted = Inr ex_averaged \<and>
   list_of_predictions_lists ex_averaged = Some ex_lists \<and>
   oob_predictions ex_averaged = Some ex_averages \<and>
   int (length (ex_lists ! 1)) < num_bags ex_averaged \<and>
   ex_averages ! 1 \<noteq> None"
  using ex_avg
  by (simp add: ex_averaged_def ex_lists_def ex_averages_def ex_fitted_def)

text \<open>
  C2, amended. On a fitted ensemble whose models answer a one-element batch, the averaged-OOB
  step returns one entry per training example, and for every example whose list of
  out-of-bag predictions has at least one entry and fewer than \<open>num_bags\<close> entries, the
  entry is present and is the mean of that list.
\<close>

theorem averaged_oob_mean_when_partly_covered:
  assumes "fit model_constructor choice st0 X y g = Inr (st, g')"
    and "models_list st = Some ms" "indices_list st = Some bags"
    and "\<forall>m \<in> set ms. \<forall>x. m [x] \<noteq> []"
  shows "\<exists>L P. get_averaged_oob_predictions st =
                  Inr (st\<lparr>list_of_predictions_lists := Some L, oob_predictions := Some P\<rparr>) \<and>
           length L = length X \<and> length P = length X \<and>
           (\<forall>i<length X. L ! i = map (\<lambda>b. hd ((ms ! b) [X ! i]))
                                   (filter (\<lambda>b. i \<notin> set (bags ! b)) [0..<nat (num_bags st)])) \<and>
           (\<forall>i<length X. L ! i \<noteq> [] \<and> int (length (L ! i)) < num_bags st \<longrightarrow>
                          P ! i = Some (np_mean (L ! i)))"
proof -
  have f: "fitted st X y bags ms" by (rule fit_fitted_with[OF assms(1,2,3)])
  then have lb: "length bags = nat (num_bags st)" by (simp add: fitted_def)
  define L where "L = map (oob_list X bags ms) [0..<length X]"
  define P where "P = map (average_one (num_bags st)) L"
  have "get_averaged_oob_predictions st =
          Inr (st\<lparr>list_of_predictions_lists := Some L, oob_predictions := Some P\<rparr>)"
    using get_averaged_fitted[OF f assms(4)] by (simp add: L_def P_def comp_def)
  moreover have "length L = length X" "length P = length X" by (simp_all add: L_def P_def)
  moreover have "\<forall>i<length X. L ! i = map (\<lambda>b. hd ((ms ! b) [X ! i]))
                                   (filter (\<lambda>b. i \<notin> set (bags ! b)) [0..<nat (num_bags st)])"
    using lb by (simp add: L_def oob_list_def)
  moreover have "\<forall>i<length X. L ! i \<noteq> [] \<and> int (length (L ! i)) < num_bags st \<longrightarrow>
                          P ! i = Some (np_mean (L ! i))"
    by (simp add: P_def L_def average_one_def)
  ultimately show ?thesis by blast
qed

theorem averaged_oob_mean_when_partly_covered_witness:
  "fit mean_stub choice_script (init 2 True) ex_X ex_y ex_bags = Inr (ex_fitted, []) \<and>
   (\<exists>L P. get_averaged_oob_predictions ex_fitted =
                  Inr (ex_fitted\<lparr>list_of_predictions_lists := Some L, oob_predictions := Some P\<rparr>) \<and>
           length L = length ex_X \<and> length P = length ex_X \<and>
           (\<forall>i<length ex_X. L ! i = map (\<lambda>b. hd ((ex_models ! b) [ex_X ! i]))
                                   (filter (\<lambda>b. i \<notin> set (ex_bags ! b)) [0..<nat (num_bags ex_fitted)])) \<and>
           (\<forall>i<length ex_X. L ! i \<noteq> [] \<and> int (length (L ! i)) < num_bags ex_fitted \<longrightarrow>
                          P ! i = Some (np_mean (L ! i)))) \<and>
   ex_lists ! 2 \<noteq> [] \<and> int (length (ex_lists ! 2)) < num_bags ex_fitted \<and>
   ex_averages ! 2 = Some (np_mean (ex_lists ! 2))"
proof -
  have v: "ex_lists ! 2 \<noteq> []" "int (length (ex_lists ! 2)) < num_bags ex_fitted"
    "ex_averages ! 2 = Some (np_mean (ex_lists ! 2))"
    by (simp_all add: ex_lists_def ex_averages_def ex_fitted_def np_mean_def)
  from averaged_oob_mean_when_partly_covered[OF ex_fit ex_fitted_models ex_fitted_indices ex_answers]
    ex_fit v
  show ?thesis by blast
qed

end
